theory Spec2Isabelle
  imports Main "HOL-Library.Sublist"
begin

section \<open>Python values used by streamlit_app.py\<close>

text \<open>
  An exception object whose class derives from \<^verbatim>\<open>Exception\<close>, with its message. Every
  handler of the program is \<^verbatim>\<open>except Exception\<close>, so the class itself is never inspected.
  What is raised outside that class (an interrupt of the process, a cancelled task) is not
  part of this development.
\<close>

datatype pyexc = PyException string

text \<open>\<^verbatim>\<open>s.startswith(p)\<close>: the first \<^verbatim>\<open>len(p)\<close> characters of \<^verbatim>\<open>s\<close> are \<^verbatim>\<open>p\<close>.\<close>

definition startswith :: "string \<Rightarrow> string \<Rightarrow> bool" where
  "startswith s p = (take (length p) s = p)"

section \<open>The Chrome side: what the Playwright calls answer\<close>

text \<open>
  A page answers the attribute read \<^verbatim>\<open>page.url\<close> and the call \<^verbatim>\<open>await page.title()\<close>;
  both sit inside the inner \<^verbatim>\<open>try\<close> of the scan and either may raise.
  A browsing context is the list \<^verbatim>\<open>context.pages\<close>. A connected browser is the list
  \<^verbatim>\<open>browser.contexts\<close> and the answer of \<^verbatim>\<open>await browser.close()\<close> (\<open>None\<close>: it returns).
  The two lists are attributes of objects the Playwright client already holds: reading
  them sends nothing to the browser, so they are data here and not calls that may raise.
\<close>

record page =
  page_url :: "pyexc + string"
  page_title :: "pyexc + string"

type_synonym browser_context = "page list"

record browser =
  browser_contexts :: "browser_context list"
  browser_close :: "pyexc option"

text \<open>
  The world of one call of \<^verbatim>\<open>fetch_all_chrome_urls\<close>: whether
  \<^verbatim>\<open>async_playwright().start()\<close> and \<^verbatim>\<open>playwright.stop()\<close> raise, and what
  \<^verbatim>\<open>connect_over_cdp\<close> answers on each port.
\<close>

record chrome_world =
  playwright_start :: "pyexc option"
  connect_over_cdp :: "nat \<Rightarrow> pyexc + browser"
  playwright_stop :: "pyexc option"

section \<open>fetch_all_chrome_urls\<close>

text \<open>The dict \<^verbatim>\<open>tab_info\<close>; each field is the key of the same name after \<open>tab_\<close>.\<close>

record tab_info =
  tab_port :: nat
  tab_window :: nat
  tab_tab :: nat
  tab_url :: string
  tab_title :: string

text \<open>The connections opened and closed, in the order the scan performs them.\<close>

datatype cdp_call = Connect nat | Close nat

record scan_state =
  all_urls :: "tab_info list"
  connected_ports :: "nat list"
  calls :: "cdp_call list"

definition ports_to_check :: "nat list" where
  "ports_to_check = [9222, 9223, 9224, 9225, 9226]"

text \<open>The test of line 81 that sends a page to \<^verbatim>\<open>continue\<close>.\<close>

definition skip_url :: "string \<Rightarrow> bool" where
  "skip_url url =
     (url \<in> set [''about:blank'', ''chrome://newtab/'', ''''] \<or> startswith url ''chrome://'')"

text \<open>
  The statements inside the inner \<^verbatim>\<open>try\<close> (lines 78 to 92): \<open>Inl e\<close> when one of the two
  reads raises, else the list \<^verbatim>\<open>all_urls\<close> as the statements leave it.
\<close>

definition page_try_body ::
  "nat \<Rightarrow> nat \<Rightarrow> nat \<Rightarrow> page \<Rightarrow> tab_info list \<Rightarrow> pyexc + tab_info list" where
  "page_try_body port ctx_idx page_idx page urls =
     (case page_url page of
        Inl e \<Rightarrow> Inl e
      | Inr url \<Rightarrow>
          (case page_title page of
             Inl e \<Rightarrow> Inl e
           | Inr title \<Rightarrow>
               if skip_url url then Inr urls
               else Inr (urls @
                 [\<lparr>tab_port = port, tab_window = ctx_idx + 1, tab_tab = page_idx + 1,
                   tab_url = url, tab_title = title\<rparr>])))"

text \<open>One round of the page loop: \<^verbatim>\<open>except Exception: continue\<close> leaves the list as it was.\<close>

definition page_iteration ::
  "nat \<Rightarrow> nat \<Rightarrow> nat \<Rightarrow> page \<Rightarrow> tab_info list \<Rightarrow> tab_info list" where
  "page_iteration port ctx_idx page_idx page urls =
     (case page_try_body port ctx_idx page_idx page urls of
        Inl e \<Rightarrow> urls
      | Inr urls' \<Rightarrow> urls')"

text \<open>\<^verbatim>\<open>for page_idx, page in enumerate(pages)\<close>, from the index reached so far.\<close>

fun pages_loop :: "nat \<Rightarrow> nat \<Rightarrow> nat \<Rightarrow> page list \<Rightarrow> tab_info list \<Rightarrow> tab_info list" where
  "pages_loop port ctx_idx page_idx [] urls = urls"
| "pages_loop port ctx_idx page_idx (page # pages) urls =
     pages_loop port ctx_idx (page_idx + 1) pages
       (page_iteration port ctx_idx page_idx page urls)"

text \<open>\<^verbatim>\<open>for ctx_idx, context in enumerate(browser.contexts)\<close>.\<close>

fun contexts_loop :: "nat \<Rightarrow> nat \<Rightarrow> browser_context list \<Rightarrow> tab_info list \<Rightarrow> tab_info list" where
  "contexts_loop port ctx_idx [] urls = urls"
| "contexts_loop port ctx_idx (ctx # ctxs) urls =
     contexts_loop port (ctx_idx + 1) ctxs (pages_loop port ctx_idx 0 ctx urls)"

text \<open>
  The statements inside the per-port \<^verbatim>\<open>try\<close> (lines 65 to 97). An exception leaves the
  lists as mutated up to the statement that raised, so the state is returned in both cases,
  with the exception if there is one. The calls that can raise here are
  \<^verbatim>\<open>connect_over_cdp\<close>, the page reads (caught by the inner handler, inside
  \<open>contexts_loop\<close>) and \<^verbatim>\<open>browser.close()\<close>; \<open>calls\<close> records each connect and each close
  at the moment it is made, before its answer is known.
\<close>

definition port_try_body :: "chrome_world \<Rightarrow> nat \<Rightarrow> scan_state \<Rightarrow> pyexc option \<times> scan_state" where
  "port_try_body w port s =
     (let s1 = s\<lparr>calls := calls s @ [Connect port]\<rparr> in
      case connect_over_cdp w port of
        Inl e \<Rightarrow> (Some e, s1)
      | Inr browser \<Rightarrow>
          (let s2 = s1\<lparr>connected_ports := connected_ports s1 @ [port]\<rparr>;
               s3 = s2\<lparr>all_urls := contexts_loop port 0 (browser_contexts browser) (all_urls s2)\<rparr>;
               s4 = s3\<lparr>calls := calls s3 @ [Close port]\<rparr>
           in (browser_close browser, s4)))"

text \<open>One round of the port loop: \<^verbatim>\<open>except Exception: continue\<close> (lines 99 and 100).\<close>

definition port_iteration :: "chrome_world \<Rightarrow> nat \<Rightarrow> scan_state \<Rightarrow> scan_state" where
  "port_iteration w port s =
     (case port_try_body w port s of
        (Some e, s') \<Rightarrow> s'
      | (None, s') \<Rightarrow> s')"

fun ports_loop :: "chrome_world \<Rightarrow> nat list \<Rightarrow> scan_state \<Rightarrow> scan_state" where
  "ports_loop w [] s = s"
| "ports_loop w (port # ports) s = ports_loop w ports (port_iteration w port s)"

text \<open>Lines 58 to 100: the three locals and the loop over the candidate ports.\<close>

definition scan :: "chrome_world \<Rightarrow> scan_state" where
  "scan w = ports_loop w ports_to_check \<lparr>all_urls = [], connected_ports = [], calls = []\<rparr>"

text \<open>
  The whole function. \<^verbatim>\<open>async_playwright().start()\<close> (line 56) stands before the outer
  \<^verbatim>\<open>try\<close>, so its exception leaves the function. Every statement of the loop body is inside
  the per-port handler and the statements after the loop only print, so the outer
  \<^verbatim>\<open>except Exception\<close> (lines 112 to 114) has nothing to catch. \<^verbatim>\<open>playwright.stop()\<close> runs
  in the \<^verbatim>\<open>finally\<close> clause; if it raises, its exception replaces the pending \<^verbatim>\<open>return\<close>.
\<close>

definition fetch_all_chrome_urls :: "chrome_world \<Rightarrow> pyexc + tab_info list" where
  "fetch_all_chrome_urls w =
     (case playwright_start w of
        Some e \<Rightarrow> Inl e
      | None \<Rightarrow>
          (let s = scan w in
           case playwright_stop w of
             Some e \<Rightarrow> Inl e
           | None \<Rightarrow> Inr (all_urls s)))"

section \<open>Python string operations used by analyze_urls\<close>

text \<open>\<^verbatim>\<open>sep.join(xs)\<close>.\<close>

fun join :: "string \<Rightarrow> string list \<Rightarrow> string" where
  "join sep [] = []"
| "join sep [x] = x"
| "join sep (x # y # ys) = x @ sep @ join sep (y # ys)"

text \<open>The decimal text of a non-negative integer, as an f-string renders \<^verbatim>\<open>{i+1}\<close> and \<^verbatim>\<open>{len(tabs)}\<close>.\<close>

function str :: "nat \<Rightarrow> string" where
  "str n =
     (if n < 10 then [''0123456789'' ! n]
      else str (n div 10) @ [''0123456789'' ! (n mod 10)])"
  by pat_completeness auto
termination
  by (relation "measure id") auto

declare str.simps [simp del]

text \<open>
  \<^verbatim>\<open>s.replace(old, new)\<close>: the occurrences of \<^verbatim>\<open>old\<close> are found from the left and do not
  overlap; with an empty \<^verbatim>\<open>old\<close>, \<^verbatim>\<open>new\<close> is put before every character and at the end.
\<close>

function replace :: "string \<Rightarrow> string \<Rightarrow> string \<Rightarrow> string" where
  "replace [] old new = (if old = [] then new else [])"
| "replace (c # cs) old new =
     (if old = [] then new @ c # replace cs old new
      else if startswith (c # cs) old then new @ replace (drop (length old) (c # cs)) old new
      else c # replace cs old new)"
  by pat_completeness auto
termination
  by (relation "measure (\<lambda>(s, old, new). length s)") auto

declare replace.simps [simp del]

section \<open>analyze_urls\<close>

text \<open>
  What the surroundings of one call answer: the module flag \<^verbatim>\<open>GALILEO_AVAILABLE\<close>, the two
  environment variables, for each Galileo call whether it raises (\<open>None\<close>: it returns), and
  the agent. \<open>agent_run env task\<close> stands for lines 169 to 175 as a whole
  (\<^verbatim>\<open>ChatBrowserUse()\<close>, \<^verbatim>\<open>Agent(task=task, llm=llm)\<close>, \<^verbatim>\<open>await agent.run()\<close>,
  \<^verbatim>\<open>result.final_result()\<close>): \<open>Inl e\<close> when one of them raises, else the value of
  \<^verbatim>\<open>analysis\<close>, which is \<^verbatim>\<open>None\<close> or a string.
\<close>

record analysis_env =
  GALILEO_AVAILABLE :: bool
  GALILEO_PROJECT_NAME :: "string option"
  GALILEO_LOG_STREAM :: "string option"
  galileo_init :: "pyexc option"
  get_logger_instance :: "pyexc option"
  logger_start_session :: "pyexc option"
  logger_start_trace :: "pyexc option"
  logger_add_llm_span :: "pyexc option"
  logger_conclude :: "pyexc option"
  logger_flush :: "pyexc option"
  galileo_config_get :: "pyexc option"
  agent_run :: "string \<Rightarrow> pyexc + string option"

text \<open>
  The calls that leave the process, with their arguments. The span carries the three token
  counts; its \<^verbatim>\<open>duration_ns\<close> is a wall-clock difference and is left out. The counts are
  taken over the 8-bit characters of \<open>string\<close>; Python's \<^verbatim>\<open>len\<close> counts code points, so
  the two agree on ASCII text only. No property below speaks of the counts.
\<close>

datatype effect =
    GalileoInit string string
  | GetLoggerInstance
  | StartSession
  | StartTrace string
  | AgentRun string
  | AddLlmSpan string string nat nat nat
  | Conclude string
  | Flush
  | ConfigGet

text \<open>\<^verbatim>\<open>os.getenv(name, default)\<close>.\<close>

definition getenv :: "string option \<Rightarrow> string \<Rightarrow> string" where
  "getenv var dflt = (case var of None \<Rightarrow> dflt | Some v \<Rightarrow> v)"

text \<open>
  The locals \<^verbatim>\<open>logger\<close> (\<open>True\<close>: it holds a logger, \<open>False\<close>: it is \<^verbatim>\<open>None\<close>) and
  \<^verbatim>\<open>galileo_session_started\<close>.
\<close>

record telemetry =
  logger :: bool
  galileo_session_started :: bool

text \<open>
  Lines 131 to 146. Any of the three calls may raise; the handler sets \<^verbatim>\<open>logger = None\<close>, and
  \<^verbatim>\<open>galileo_session_started\<close> is set only after the last of them.
\<close>

definition start_galileo :: "analysis_env \<Rightarrow> telemetry \<times> effect list" where
  "start_galileo env =
     (if GALILEO_AVAILABLE env then
        (let project_name = getenv (GALILEO_PROJECT_NAME env) ''chrome-tab-analyzer'';
             log_stream = getenv (GALILEO_LOG_STREAM env) ''tab-analysis''
         in case galileo_init env of
              Some e \<Rightarrow>
                (\<lparr>logger = False, galileo_session_started = False\<rparr>,
                 [GalileoInit project_name log_stream])
            | None \<Rightarrow>
                (case get_logger_instance env of
                   Some e \<Rightarrow>
                     (\<lparr>logger = False, galileo_session_started = False\<rparr>,
                      [GalileoInit project_name log_stream, GetLoggerInstance])
                 | None \<Rightarrow>
                     (case logger_start_session env of
                        Some e \<Rightarrow>
                          (\<lparr>logger = False, galileo_session_started = False\<rparr>,
                           [GalileoInit project_name log_stream, GetLoggerInstance, StartSession])
                      | None \<Rightarrow>
                          (\<lparr>logger = True, galileo_session_started = True\<rparr>,
                           [GalileoInit project_name log_stream, GetLoggerInstance,
                            StartSession]))))
      else (\<lparr>logger = False, galileo_session_started = False\<rparr>, []))"

text \<open>Line 149.\<close>

definition urls_text :: "tab_info list \<Rightarrow> string" where
  "urls_text tabs =
     join [CHR 0x0A]
       (map (\<lambda>(i, tab). str (i + 1) @ ''. '' @ tab_title tab @ '' - '' @ tab_url tab)
            (enumerate 0 tabs))"

text \<open>
  Lines 152 to 158: the f-string \<^verbatim>\<open>task\<close>. Each of its lines starts with the four spaces
  of the source's indentation; \<open>CHR 0x0A\<close> is the line break and \<open>CHR 0x27\<close> the apostrophe.
\<close>

definition compose_task :: "tab_info list \<Rightarrow> string \<Rightarrow> string" where
  "compose_task tabs custom_task =
     [CHR 0x0A] @ ''    I have '' @ str (length tabs) @ '' browser tabs saved. Here''
       @ [CHR 0x27] @ ''s the list:'' @ [CHR 0x0A]
     @ ''    '' @ [CHR 0x0A]
     @ ''    '' @ urls_text tabs @ [CHR 0x0A]
     @ ''    '' @ [CHR 0x0A]
     @ ''    '' @ custom_task @ [CHR 0x0A]
     @ ''    ''"

text \<open>
  Lines 161 to 166. The first component tells whether \<^verbatim>\<open>start_time_ns\<close> got bound: it is
  assigned after \<^verbatim>\<open>start_trace\<close> inside the same \<^verbatim>\<open>try\<close>.
\<close>

definition open_trace :: "analysis_env \<Rightarrow> telemetry \<Rightarrow> string \<Rightarrow> bool \<times> effect list" where
  "open_trace env t task =
     (if logger t \<and> galileo_session_started t then
        (case logger_start_trace env of
           Some e \<Rightarrow> (False, [StartTrace task])
         | None \<Rightarrow> (True, [StartTrace task]))
      else (False, []))"

text \<open>Line 176; \<open>[CHR 0x5C, CHR ''n'']\<close> is the two-character text backslash, n.\<close>

definition clean_analysis :: "string option \<Rightarrow> string" where
  "clean_analysis analysis =
     (case analysis of
        None \<Rightarrow> ''Analysis failed''
      | Some a \<Rightarrow>
          if a = [] then ''Analysis failed''
          else replace a [CHR 0x5C, CHR ''n''] [CHR 0x0A])"

text \<open>
  Lines 179 to 205. Reading an unbound \<^verbatim>\<open>start_time_ns\<close> at line 181 raises
  \<^verbatim>\<open>UnboundLocalError\<close>, which the handler of line 204 catches like any failure of the calls
  that follow.
\<close>

definition log_to_galileo ::
  "analysis_env \<Rightarrow> telemetry \<Rightarrow> bool \<Rightarrow> string \<Rightarrow> string \<Rightarrow> effect list" where
  "log_to_galileo env t start_time_bound task clean =
     (if logger t \<and> galileo_session_started t then
        (if \<not> start_time_bound then []
         else
           (let span = AddLlmSpan task clean (length task div 4) (length clean div 4)
                         ((length task + length clean) div 4)
            in case logger_add_llm_span env of
                 Some e \<Rightarrow> [span]
               | None \<Rightarrow>
                   (case logger_conclude env of
                      Some e \<Rightarrow> [span, Conclude clean]
                    | None \<Rightarrow>
                        (case logger_flush env of
                           Some e \<Rightarrow> [span, Conclude clean, Flush]
                         | None \<Rightarrow>
                             (case galileo_config_get env of
                                Some e \<Rightarrow> [span, Conclude clean, Flush, ConfigGet]
                              | None \<Rightarrow> [span, Conclude clean, Flush, ConfigGet])))))
      else [])"

text \<open>
  What a call of \<^verbatim>\<open>analyze_urls\<close> does: \<open>result\<close> is \<open>Inl e\<close> when the exception \<open>e\<close>
  leaves the function, \<open>Inr None\<close> when it returns \<^verbatim>\<open>None\<close>, \<open>Inr (Some s)\<close> when it returns
  the string \<open>s\<close>; \<open>effects\<close> are the outside calls it made, in order.
\<close>

record analysis_run =
  result :: "pyexc + string option"
  effects :: "effect list"

definition analyze_urls :: "analysis_env \<Rightarrow> tab_info list \<Rightarrow> string \<Rightarrow> analysis_run" where
  "analyze_urls env tabs custom_task =
     (if tabs = [] then \<lparr>result = Inr None, effects = []\<rparr>
      else
        (let (t, fx1) = start_galileo env;
             task = compose_task tabs custom_task;
             (start_time_bound, fx2) = open_trace env t task
         in case agent_run env task of
              Inl e \<Rightarrow> \<lparr>result = Inl e, effects = fx1 @ fx2 @ [AgentRun task]\<rparr>
            | Inr analysis \<Rightarrow>
                (let clean = clean_analysis analysis;
                     fx3 = log_to_galileo env t start_time_bound task clean
                 in \<lparr>result = Inr (Some clean),
                      effects = fx1 @ fx2 @ [AgentRun task] @ fx3\<rparr>)))"

text \<open>The caller's test \<^verbatim>\<open>if analysis:\<close> (line 342) on the value \<^verbatim>\<open>analyze_urls\<close> returned.\<close>

definition truthy :: "string option \<Rightarrow> bool" where
  "truthy analysis = (case analysis of None \<Rightarrow> False | Some a \<Rightarrow> a \<noteq> [])"

section \<open>The design's descriptions, to compare the code with\<close>

text \<open>
  The URLs the design filters out: the empty string, the two placeholders, and every URL
  that begins with the browser-internal scheme.
\<close>

definition excluded_url :: "string \<Rightarrow> bool" where
  "excluded_url u =
     (u = '''' \<or> u = ''about:blank'' \<or> u = ''chrome://newtab/'' \<or> prefix ''chrome://'' u)"

text \<open>
  The Tab Extractor for one page: no record when a read fails or the URL is filtered out,
  else the one record with the 1-based window and tab positions.
\<close>

definition page_records :: "nat \<Rightarrow> nat \<Rightarrow> nat \<Rightarrow> page \<Rightarrow> tab_info list" where
  "page_records port ctx_idx page_idx page =
     (case (page_url page, page_title page) of
        (Inr u, Inr t) \<Rightarrow>
          if excluded_url u then []
          else [\<lparr>tab_port = port, tab_window = ctx_idx + 1, tab_tab = page_idx + 1,
                 tab_url = u, tab_title = t\<rparr>]
      | _ \<Rightarrow> [])"

text \<open>The records of one context in page order, and of one endpoint in context order.\<close>

definition context_records :: "nat \<Rightarrow> nat \<Rightarrow> browser_context \<Rightarrow> tab_info list" where
  "context_records port ctx_idx ctx =
     concat (map (\<lambda>(page_idx, page). page_records port ctx_idx page_idx page) (enumerate 0 ctx))"

definition endpoint_records :: "chrome_world \<Rightarrow> nat \<Rightarrow> tab_info list" where
  "endpoint_records w port =
     (case connect_over_cdp w port of
        Inl err \<Rightarrow> []
      | Inr b \<Rightarrow>
          concat (map (\<lambda>(ctx_idx, ctx). context_records port ctx_idx ctx)
                      (enumerate 0 (browser_contexts b))))"

text \<open>
  What the design asks of one endpoint's connection: a probe, and for a probe that succeeded
  the release of the connection right after it, before anything else is opened.
\<close>

definition port_calls :: "chrome_world \<Rightarrow> nat \<Rightarrow> cdp_call list" where
  "port_calls w port =
     (case connect_over_cdp w port of
        Inl err \<Rightarrow> [Connect port]
      | Inr b \<Rightarrow> [Connect port, Close port])"

text \<open>Every backslash-n pair of a text turned into a line break, reading from the left.\<close>

fun unescape_newlines :: "string \<Rightarrow> string" where
  "unescape_newlines (c # d # cs) =
     (if c = CHR 0x5C \<and> d = CHR ''n'' then CHR 0x0A # unescape_newlines cs
      else c # unescape_newlines (d # cs))"
| "unescape_newlines [c] = [c]"
| "unescape_newlines [] = []"

text \<open>One numbered entry of the prompt: number, title, URL.\<close>

definition numbered_line :: "nat \<Rightarrow> tab_info \<Rightarrow> string" where
  "numbered_line n tab = str n @ ''. '' @ tab_title tab @ '' - '' @ tab_url tab"

text \<open>
  The texts \<open>ps\<close> occur in \<open>s\<close> one after the other, without overlap: as a statement
  (\<open>follow_each_other\<close>) and as a search from the left that can be run (\<open>occur_in_order\<close>;
  \<open>after_first sub s\<close> is what follows the first occurrence of \<open>sub\<close> in \<open>s\<close>).
\<close>

fun follow_each_other :: "string list \<Rightarrow> string \<Rightarrow> bool" where
  "follow_each_other [] s = True"
| "follow_each_other (p # ps) s = (\<exists>a r. s = a @ p @ r \<and> follow_each_other ps r)"

fun after_first :: "string \<Rightarrow> string \<Rightarrow> string option" where
  "after_first sub [] = (if sub = [] then Some [] else None)"
| "after_first sub (c # cs) =
     (if startswith (c # cs) sub then Some (drop (length sub) (c # cs))
      else after_first sub cs)"

fun occur_in_order :: "string list \<Rightarrow> string \<Rightarrow> bool" where
  "occur_in_order [] s = True"
| "occur_in_order (p # ps) s =
     (case after_first p s of None \<Rightarrow> False | Some rest \<Rightarrow> occur_in_order ps rest)"

text \<open>The telemetry calls that record the span and end the trace.\<close>

fun closes_trace :: "effect \<Rightarrow> bool" where
  "closes_trace (AddLlmSpan i out n m k) = True"
| "closes_trace (Conclude out) = True"
| "closes_trace Flush = True"
| "closes_trace fx = False"

section \<open>Concrete worlds\<close>

text \<open>
  Scenario A of the design on the program's five ports: only 9223 answers, with one context
  of two pages, the second one blank.
\<close>

definition scenario_A :: chrome_world where
  "scenario_A =
     \<lparr>playwright_start = None,
      connect_over_cdp = (\<lambda>port.
        if port = 9223 then
          Inr \<lparr>browser_contexts =
                 [ [\<lparr>page_url = Inr ''https://x.test/a'', page_title = Inr ''Docs''\<rparr>,
                   \<lparr>page_url = Inr ''about:blank'', page_title = Inr ''''\<rparr>] ],
               browser_close = None\<rparr>
        else Inl (PyException ''connection refused'')),
      playwright_stop = None\<rparr>"

text \<open>
  Two browsers. On 9222: a window with a good page and a page whose title read raises, a
  second window with one good page, and a \<^verbatim>\<open>close\<close> that raises. On 9224: one window with a
  settings page and a good page. The scan of this world returns the three tabs of
  \<open>scenario_B\<close> below.
\<close>

definition two_browsers :: chrome_world where
  "two_browsers =
     \<lparr>playwright_start = None,
      connect_over_cdp = (\<lambda>port.
        if port = 9222 then
          Inr \<lparr>browser_contexts =
                 [ [\<lparr>page_url = Inr ''https://x.test/a'', page_title = Inr ''Docs''\<rparr>,
                   \<lparr>page_url = Inr ''https://x.test/gone'',
                     page_title = Inl (PyException ''target closed'')\<rparr>],
                  [\<lparr>page_url = Inr ''https://y.test/b'', page_title = Inr ''News''\<rparr>] ],
               browser_close = Some (PyException ''connection lost'')\<rparr>
        else if port = 9224 then
          Inr \<lparr>browser_contexts =
                 [ [\<lparr>page_url = Inr ''chrome://settings/'', page_title = Inr ''Settings''\<rparr>,
                   \<lparr>page_url = Inr ''https://z.test/c'', page_title = Inr ''Mail''\<rparr>] ],
               browser_close = None\<rparr>
        else Inl (PyException ''connection refused'')),
      playwright_stop = None\<rparr>"

definition all_unreachable :: chrome_world where
  "all_unreachable =
     \<lparr>playwright_start = None,
      connect_over_cdp = (\<lambda>port. Inl (PyException ''connection refused'')),
      playwright_stop = None\<rparr>"

definition driver_missing :: chrome_world where
  "driver_missing =
     \<lparr>playwright_start = Some (PyException ''driver not found''),
      connect_over_cdp = (\<lambda>port. Inl (PyException ''connection refused'')),
      playwright_stop = None\<rparr>"

definition driver_stop_fails :: chrome_world where
  "driver_stop_fails =
     \<lparr>playwright_start = None,
      connect_over_cdp = (\<lambda>port. Inl (PyException ''connection refused'')),
      playwright_stop = Some (PyException ''driver already gone'')\<rparr>"

text \<open>Scenario B: an inventory of three tabs.\<close>

definition scenario_B :: "tab_info list" where
  "scenario_B =
     [\<lparr>tab_port = 9222, tab_window = 1, tab_tab = 1,
       tab_url = ''https://x.test/a'', tab_title = ''Docs''\<rparr>,
      \<lparr>tab_port = 9222, tab_window = 2, tab_tab = 1,
       tab_url = ''https://y.test/b'', tab_title = ''News''\<rparr>,
      \<lparr>tab_port = 9224, tab_window = 1, tab_tab = 2,
       tab_url = ''https://z.test/c'', tab_title = ''Mail''\<rparr>]"

text \<open>
  Three surroundings with Galileo installed and working: the agent raises, the agent
  returns nothing, the agent returns the text of scenario C.
\<close>

definition agent_fails :: analysis_env where
  "agent_fails =
     \<lparr>GALILEO_AVAILABLE = True, GALILEO_PROJECT_NAME = None, GALILEO_LOG_STREAM = None,
      galileo_init = None, get_logger_instance = None, logger_start_session = None,
      logger_start_trace = None, logger_add_llm_span = None, logger_conclude = None,
      logger_flush = None, galileo_config_get = None,
      agent_run = (\<lambda>task. Inl (PyException ''timeout''))\<rparr>"

definition agent_silent :: analysis_env where
  "agent_silent =
     \<lparr>GALILEO_AVAILABLE = True, GALILEO_PROJECT_NAME = None, GALILEO_LOG_STREAM = None,
      galileo_init = None, get_logger_instance = None, logger_start_session = None,
      logger_start_trace = None, logger_add_llm_span = None, logger_conclude = None,
      logger_flush = None, galileo_config_get = None,
      agent_run = (\<lambda>task. Inr None)\<rparr>"

definition agent_escapes :: analysis_env where
  "agent_escapes =
     \<lparr>GALILEO_AVAILABLE = True, GALILEO_PROJECT_NAME = None, GALILEO_LOG_STREAM = None,
      galileo_init = None, get_logger_instance = None, logger_start_session = None,
      logger_start_trace = None, logger_add_llm_span = None, logger_conclude = None,
      logger_flush = None, galileo_config_get = None,
      agent_run = (\<lambda>task. Inr (Some (''line1'' @ [CHR 0x5C, CHR ''n''] @ ''line2'')))\<rparr>"

text \<open>
  Galileo installed, but \<^verbatim>\<open>start_trace\<close> raises, so \<^verbatim>\<open>start_time_ns\<close> stays unbound; the
  agent returns the text of scenario C.
\<close>

definition trace_fails :: analysis_env where
  "trace_fails =
     \<lparr>GALILEO_AVAILABLE = True, GALILEO_PROJECT_NAME = None, GALILEO_LOG_STREAM = Some ''nightly'',
      galileo_init = None, get_logger_instance = None, logger_start_session = None,
      logger_start_trace = Some (PyException ''trace rejected''), logger_add_llm_span = None,
      logger_conclude = None, logger_flush = None, galileo_config_get = None,
      agent_run = (\<lambda>task. Inr (Some (''line1'' @ [CHR 0x5C, CHR ''n''] @ ''line2'')))\<rparr>"

section \<open>Lemmas on the scan\<close>

lemma startswith_prefix: "startswith s p = prefix p s"
proof
  assume "startswith s p"
  then have "s = p @ drop (length p) s"
    unfolding startswith_def by (metis append_take_drop_id)
  then show "prefix p s"
    by (rule prefixI)
next
  assume "prefix p s"
  then show "startswith s p"
    by (auto simp: startswith_def prefix_def)
qed

lemma skip_url_excluded: "skip_url u = excluded_url u"
  by (auto simp: skip_url_def excluded_url_def startswith_prefix)

lemma page_iteration_append:
  "page_iteration port ci pi page urls = urls @ page_records port ci pi page"
  by (simp add: page_records_def page_iteration_def page_try_body_def skip_url_excluded
      split: sum.splits)

lemma pages_loop_concat:
  "pages_loop port ci k pages urls =
     urls @ concat (map (\<lambda>(pi, page). page_records port ci pi page) (enumerate k pages))"
proof (induction pages arbitrary: k urls)
  case Nil
  show ?case by simp
next
  case (Cons page pages)
  show ?case
    by (simp add: Cons.IH page_iteration_append)
qed

lemma contexts_loop_concat:
  "contexts_loop port k ctxs urls =
     urls @ concat (map (\<lambda>(ci, ctx). context_records port ci ctx) (enumerate k ctxs))"
proof (induction ctxs arbitrary: k urls)
  case Nil
  show ?case by simp
next
  case (Cons ctx ctxs)
  show ?case
    by (simp add: Cons.IH pages_loop_concat context_records_def)
qed

lemma port_iteration_all_urls:
  "all_urls (port_iteration w port s) = all_urls s @ endpoint_records w port"
  by (simp add: port_iteration_def port_try_body_def endpoint_records_def contexts_loop_concat
      Let_def split: sum.splits option.splits)

lemma port_iteration_calls:
  "calls (port_iteration w port s) = calls s @ port_calls w port"
  by (simp add: port_iteration_def port_try_body_def port_calls_def
      Let_def split: sum.splits option.splits)

lemma port_iteration_connected_ports:
  "connected_ports (port_iteration w port s) =
     connected_ports s @ (case connect_over_cdp w port of Inl err \<Rightarrow> [] | Inr b \<Rightarrow> [port])"
  by (simp add: port_iteration_def port_try_body_def
      Let_def split: sum.splits option.splits)

lemma ports_loop_all_urls:
  "all_urls (ports_loop w ports s) = all_urls s @ concat (map (endpoint_records w) ports)"
proof (induction ports arbitrary: s)
  case Nil
  show ?case by simp
next
  case (Cons port ports)
  show ?case
    by (simp add: Cons.IH port_iteration_all_urls)
qed

lemma ports_loop_calls:
  "calls (ports_loop w ports s) = calls s @ concat (map (port_calls w) ports)"
proof (induction ports arbitrary: s)
  case Nil
  show ?case by simp
next
  case (Cons port ports)
  show ?case
    by (simp add: Cons.IH port_iteration_calls)
qed

lemma ports_loop_connected_ports:
  "connected_ports (ports_loop w ports s) =
     connected_ports s @ filter (\<lambda>port. \<not> isl (connect_over_cdp w port)) ports"
proof (induction ports arbitrary: s)
  case Nil
  show ?case by simp
next
  case (Cons port ports)
  show ?case
    by (simp add: Cons.IH port_iteration_connected_ports split: sum.splits)
qed

lemma scan_all_urls:
  "all_urls (scan w) = concat (map (endpoint_records w) [9222, 9223, 9224, 9225, 9226])"
  unfolding scan_def ports_loop_all_urls by (simp add: ports_to_check_def)

lemma scan_connected_ports:
  "connected_ports (scan w) =
     filter (\<lambda>port. \<not> isl (connect_over_cdp w port)) [9222, 9223, 9224, 9225, 9226]"
  unfolding scan_def ports_loop_connected_ports by (simp add: ports_to_check_def)

lemma fetch_returns_scan:
  "fetch_all_chrome_urls w = Inr rs \<Longrightarrow> rs = all_urls (scan w)"
  by (auto simp: fetch_all_chrome_urls_def Let_def split: option.splits)

lemma endpoint_records_unreachable:
  "endpoint_records (w\<lparr>connect_over_cdp := (connect_over_cdp w)(p := Inl e)\<rparr>) =
     (\<lambda>port. if port = p then [] else endpoint_records w port)"
  by (rule ext) (simp add: endpoint_records_def)

lemma page_records_not_excluded:
  "r \<in> set (page_records port ci pi page) \<Longrightarrow> \<not> excluded_url (tab_url r)"
  by (auto simp: page_records_def split: sum.splits if_splits)

lemma endpoint_records_not_excluded:
  "r \<in> set (endpoint_records w port) \<Longrightarrow> \<not> excluded_url (tab_url r)"
  by (auto simp: endpoint_records_def context_records_def split: sum.splits
      dest: page_records_not_excluded)

text \<open>
  Every failure of an endpoint or a page is absorbed: when the Playwright driver starts and
  stops without raising, the function returns a list, and with every candidate endpoint
  unreachable this list is empty and the local \<^verbatim>\<open>connected_ports\<close>, which the function only
  prints, is empty too.
\<close>

lemma fetch_returns_when_driver_runs:
  "playwright_start w = None \<Longrightarrow> playwright_stop w = None \<Longrightarrow>
     (\<exists>rs. fetch_all_chrome_urls w = Inr rs)
     \<and> ((\<forall>port \<in> set [9222, 9223, 9224, 9225, 9226]. isl (connect_over_cdp w port)) \<longrightarrow>
          fetch_all_chrome_urls w = Inr [] \<and> connected_ports (scan w) = [])"
proof -
  assume run: "playwright_start w = None" "playwright_stop w = None"
  have ret: "fetch_all_chrome_urls w = Inr (all_urls (scan w))"
    using run by (simp add: fetch_all_chrome_urls_def)
  have unreach: "isl (connect_over_cdp w port) \<Longrightarrow> endpoint_records w port = []" for port
    by (auto simp: endpoint_records_def split: sum.splits)
  show ?thesis
    using ret by (auto simp: scan_connected_ports scan_all_urls unreach)
qed

lemma fetch_all_unreachable:
  "fetch_all_chrome_urls all_unreachable = Inr []
   \<and> connected_ports (scan all_unreachable) = []"
  using fetch_returns_when_driver_runs [of all_unreachable]
  by (simp add: all_unreachable_def)

text \<open>The two concrete scans, run step by step.\<close>

lemma fetch_scenario_A:
  "fetch_all_chrome_urls scenario_A =
     Inr [\<lparr>tab_port = 9223, tab_window = 1, tab_tab = 1,
           tab_url = ''https://x.test/a'', tab_title = ''Docs''\<rparr>]"
  by (simp add: fetch_all_chrome_urls_def scan_def ports_to_check_def scenario_A_def
      port_iteration_def port_try_body_def page_iteration_def page_try_body_def
      skip_url_def startswith_def Let_def)

lemma fetch_two_browsers:
  "fetch_all_chrome_urls two_browsers = Inr scenario_B"
  by (simp add: fetch_all_chrome_urls_def scan_def ports_to_check_def two_browsers_def
      scenario_B_def port_iteration_def port_try_body_def page_iteration_def page_try_body_def
      skip_url_def startswith_def Let_def)

lemma fetch_two_browsers_one_lost:
  "fetch_all_chrome_urls
     (two_browsers\<lparr>connect_over_cdp :=
        (connect_over_cdp two_browsers)(9222 := Inl (PyException ''connection refused''))\<rparr>) =
     Inr [\<lparr>tab_port = 9224, tab_window = 1, tab_tab = 2,
           tab_url = ''https://z.test/c'', tab_title = ''Mail''\<rparr>]"
  by (simp add: fetch_all_chrome_urls_def scan_def ports_to_check_def two_browsers_def
      port_iteration_def port_try_body_def page_iteration_def page_try_body_def
      skip_url_def startswith_def Let_def)

section \<open>Lemmas on the analysis\<close>

lemma replace_unescape:
  "replace s [CHR 0x5C, CHR ''n''] [CHR 0x0A] = unescape_newlines s"
proof (induction s rule: unescape_newlines.induct)
  case (1 c d cs)
  then show ?case
    by (simp add: replace.simps startswith_def)
next
  case (2 c)
  show ?case by (simp add: replace.simps startswith_def)
next
  case 3
  show ?case by (simp add: replace.simps)
qed

lemma unescape_newlines_nonempty: "s \<noteq> [] \<Longrightarrow> unescape_newlines s \<noteq> []"
  by (induction s rule: unescape_newlines.induct) auto

lemma clean_analysis_unescape:
  "clean_analysis raw =
     (case raw of
        None \<Rightarrow> ''Analysis failed''
      | Some a \<Rightarrow> if a = [] then ''Analysis failed'' else unescape_newlines a)"
  by (simp add: clean_analysis_def replace_unescape split: option.splits)

lemma clean_analysis_nonempty: "clean_analysis raw \<noteq> []"
  by (simp add: clean_analysis_unescape unescape_newlines_nonempty split: option.splits)

lemma result_analyze_urls:
  "result (analyze_urls env tabs custom_task) =
     (if tabs = [] then Inr None
      else case agent_run env (compose_task tabs custom_task) of
             Inl e \<Rightarrow> Inl e
           | Inr raw \<Rightarrow> Inr (Some (clean_analysis raw)))"
  by (simp add: analyze_urls_def Let_def split: prod.splits sum.splits)

lemma start_galileo_no_close: "filter closes_trace (snd (start_galileo env)) = []"
  by (simp add: start_galileo_def Let_def split: option.splits)

lemma open_trace_no_close: "filter closes_trace (snd (open_trace env t task)) = []"
  by (simp add: open_trace_def split: option.splits)

lemma effects_when_agent_raises:
  "tabs \<noteq> [] \<Longrightarrow> agent_run env (compose_task tabs custom_task) = Inl e \<Longrightarrow>
     effects (analyze_urls env tabs custom_task) =
       snd (start_galileo env)
       @ snd (open_trace env (fst (start_galileo env)) (compose_task tabs custom_task))
       @ [AgentRun (compose_task tabs custom_task)]"
  by (simp add: analyze_urls_def Let_def split: prod.splits)

lemma enumerate_map_nth:
  "map (\<lambda>(i, x). f i x) (enumerate 0 xs) = map (\<lambda>i. f i (xs ! i)) [0..<length xs]"
  by (rule nth_equalityI) (simp_all add: nth_enumerate_eq)

lemma urls_text_numbered:
  "urls_text tabs =
     join [CHR 0x0A] (map (\<lambda>i. numbered_line (i + 1) (tabs ! i)) [0..<length tabs])"
  unfolding urls_text_def numbered_line_def by (simp add: enumerate_map_nth)

text \<open>The search from the left finds the texts exactly when they follow each other.\<close>

lemma after_first_sound:
  "after_first p s = Some rest \<Longrightarrow> \<exists>a. s = a @ p @ rest"
proof (induction s)
  case Nil
  then show ?case by (simp split: if_splits)
next
  case (Cons c cs)
  show ?case
  proof (cases "startswith (c # cs) p")
    case True
    with Cons.prems have "rest = drop (length p) (c # cs)" by simp
    moreover from True have "take (length p) (c # cs) = p" by (simp add: startswith_def)
    ultimately have "c # cs = [] @ p @ rest"
      by (metis append_Nil append_take_drop_id)
    then show ?thesis by blast
  next
    case False
    with Cons.prems have "after_first p cs = Some rest" by simp
    then obtain a where "cs = a @ p @ rest" using Cons.IH by blast
    then have "c # cs = (c # a) @ p @ rest" by simp
    then show ?thesis by blast
  qed
qed

lemma after_first_complete:
  "\<exists>x. after_first p (a @ p @ r) = Some (x @ r)"
proof (induction a)
  case Nil
  show ?case
  proof (cases "p @ r")
    case Nil
    then show ?thesis by simp
  next
    case (Cons c cs)
    have "startswith (p @ r) p"
      by (simp add: startswith_def)
    then have "after_first p (c # cs) = Some (drop (length p) (c # cs))"
      by (simp add: Cons)
    then have "after_first p ([] @ p @ r) = Some ([] @ r)"
      by (simp add: Cons [symmetric])
    then show ?thesis by blast
  qed
next
  case (Cons c a)
  show ?case
  proof (cases "startswith (c # a @ p @ r) p")
    case True
    have "drop (length p) ((c # a @ p) @ r) = drop (length p) (c # a @ p) @ r"
      by (simp del: append.simps)
    with True have "after_first p ((c # a) @ p @ r) = Some (drop (length p) (c # a @ p) @ r)"
      by simp
    then show ?thesis by blast
  next
    case False
    then show ?thesis using Cons.IH by simp
  qed
qed

lemma occur_in_order_extend:
  "occur_in_order ps r \<Longrightarrow> occur_in_order ps (x @ r)"
proof (induction ps arbitrary: r x)
  case Nil
  show ?case by simp
next
  case (Cons p ps)
  from Cons.prems obtain rest where rest: "after_first p r = Some rest" "occur_in_order ps rest"
    by (auto split: option.splits)
  from after_first_sound [OF rest(1)] obtain a where "r = a @ p @ rest" by blast
  then have "x @ r = (x @ a) @ p @ rest" by simp
  then obtain y where "after_first p (x @ r) = Some (y @ rest)"
    using after_first_complete [of p "x @ a" rest] by auto
  then show ?case
    using Cons.IH [OF rest(2)] by simp
qed

lemma occur_in_order_iff: "occur_in_order ps s = follow_each_other ps s"
proof (induction ps arbitrary: s)
  case Nil
  show ?case by simp
next
  case (Cons p ps)
  show ?case
  proof
    assume "occur_in_order (p # ps) s"
    then obtain rest where rest: "after_first p s = Some rest" "occur_in_order ps rest"
      by (auto split: option.splits)
    from after_first_sound [OF rest(1)] rest(2) show "follow_each_other (p # ps) s"
      using Cons.IH by auto
  next
    assume "follow_each_other (p # ps) s"
    then obtain a r where s: "s = a @ p @ r" and r: "follow_each_other ps r"
      by auto
    obtain x where "after_first p s = Some (x @ r)"
      using after_first_complete [of p a r] s by auto
    moreover have "occur_in_order ps (x @ r)"
      using r Cons.IH occur_in_order_extend by blast
    ultimately show "occur_in_order (p # ps) s" by simp
  qed
qed

section \<open>Verified properties\<close>

text \<open>
  Claim C1. Whenever the scan returns, the list it returns is the concatenation, over the
  candidate ports 9222, 9223, 9224, 9225, 9226 in this order, of each endpoint's records.
  An endpoint's records are those of its contexts in enumeration order, a context's records
  those of its pages in enumeration order, and an unreachable endpoint has none. The order
  does not depend on which endpoints are unreachable: when the endpoint \<open>p\<close> is made
  unreachable, its block disappears and every other block stays as it was, in its place.
\<close>

theorem scan_output_order:
  "(fetch_all_chrome_urls w = Inr rs \<longrightarrow>
      rs = concat (map (endpoint_records w) [9222, 9223, 9224, 9225, 9226]))
   \<and> endpoint_records w port =
       (case connect_over_cdp w port of
          Inl err \<Rightarrow> []
        | Inr b \<Rightarrow>
            concat (map (\<lambda>(ctx_idx, ctx).
                      concat (map (\<lambda>(page_idx, page). page_records port ctx_idx page_idx page)
                                  (enumerate 0 ctx)))
                    (enumerate 0 (browser_contexts b))))
   \<and> (fetch_all_chrome_urls (w\<lparr>connect_over_cdp := (connect_over_cdp w)(p := Inl e)\<rparr>) = Inr rs' \<longrightarrow>
      rs' = concat (map (\<lambda>port. if port = p then [] else endpoint_records w port)
                        [9222, 9223, 9224, 9225, 9226]))"
proof (intro conjI impI)
  assume "fetch_all_chrome_urls w = Inr rs"
  then show "rs = concat (map (endpoint_records w) [9222, 9223, 9224, 9225, 9226])"
    using fetch_returns_scan [of w rs] by (simp add: scan_all_urls)
next
  show "endpoint_records w port =
       (case connect_over_cdp w port of
          Inl err \<Rightarrow> []
        | Inr b \<Rightarrow>
            concat (map (\<lambda>(ctx_idx, ctx).
                      concat (map (\<lambda>(page_idx, page). page_records port ctx_idx page_idx page)
                                  (enumerate 0 ctx)))
                    (enumerate 0 (browser_contexts b))))"
    unfolding endpoint_records_def context_records_def [abs_def] by (rule refl)
next
  assume "fetch_all_chrome_urls (w\<lparr>connect_over_cdp := (connect_over_cdp w)(p := Inl e)\<rparr>) = Inr rs'"
  then have "rs' = all_urls (scan (w\<lparr>connect_over_cdp := (connect_over_cdp w)(p := Inl e)\<rparr>))"
    by (rule fetch_returns_scan)
  then show "rs' = concat (map (\<lambda>port. if port = p then [] else endpoint_records w port)
                        [9222, 9223, 9224, 9225, 9226])"
    by (simp only: scan_all_urls endpoint_records_unreachable)
qed

theorem scan_output_order_witness:
  "fetch_all_chrome_urls two_browsers = Inr scenario_B
   \<and> scenario_B = concat (map (endpoint_records two_browsers) [9222, 9223, 9224, 9225, 9226])
   \<and> fetch_all_chrome_urls
       (two_browsers\<lparr>connect_over_cdp :=
          (connect_over_cdp two_browsers)(9222 := Inl (PyException ''connection refused''))\<rparr>) =
       Inr [\<lparr>tab_port = 9224, tab_window = 1, tab_tab = 2,
             tab_url = ''https://z.test/c'', tab_title = ''Mail''\<rparr>]
   \<and> [\<lparr>tab_port = 9224, tab_window = 1, tab_tab = 2,
        tab_url = ''https://z.test/c'', tab_title = ''Mail''\<rparr>] =
       concat (map (\<lambda>port. if port = 9222 then [] else endpoint_records two_browsers port)
                   [9222, 9223, 9224, 9225, 9226])"
  using scan_output_order [where w = two_browsers and rs = scenario_B and p = 9222
      and e = "PyException ''connection refused''"
      and rs' = "[\<lparr>tab_port = 9224, tab_window = 1, tab_tab = 2,
                   tab_url = ''https://z.test/c'', tab_title = ''Mail''\<rparr>]"]
    fetch_two_browsers fetch_two_browsers_one_lost
  by blast

text \<open>
  Claim C2. A page whose URL is the empty string, \<open>about:blank\<close>, \<open>chrome://newtab/\<close> or
  begins with \<open>chrome://\<close> adds nothing to the list, whatever its title read gives (a
  title, or an exception); and every record of a list the scan returns has a URL that is
  none of these.
\<close>

theorem filtered_urls_excluded:
  "(excluded_url u \<longrightarrow>
      page_iteration port ctx_idx page_idx \<lparr>page_url = Inr u, page_title = t\<rparr> urls = urls)
   \<and> (fetch_all_chrome_urls w = Inr rs \<longrightarrow> (\<forall>r \<in> set rs. \<not> excluded_url (tab_url r)))"
proof (intro conjI impI)
  assume "excluded_url u"
  then show "page_iteration port ctx_idx page_idx \<lparr>page_url = Inr u, page_title = t\<rparr> urls = urls"
    by (simp add: page_iteration_append page_records_def split: sum.splits)
next
  assume "fetch_all_chrome_urls w = Inr rs"
  then have "rs = concat (map (endpoint_records w) [9222, 9223, 9224, 9225, 9226])"
    using fetch_returns_scan [of w rs] by (simp add: scan_all_urls)
  then show "\<forall>r \<in> set rs. \<not> excluded_url (tab_url r)"
    by (auto dest: endpoint_records_not_excluded)
qed

theorem filtered_urls_excluded_witness:
  "excluded_url ''chrome://settings/''
   \<and> page_iteration 9223 0 1
       \<lparr>page_url = Inr ''chrome://settings/'', page_title = Inr ''Settings''\<rparr> [] = []
   \<and> fetch_all_chrome_urls scenario_A =
       Inr [\<lparr>tab_port = 9223, tab_window = 1, tab_tab = 1,
             tab_url = ''https://x.test/a'', tab_title = ''Docs''\<rparr>]
   \<and> \<not> excluded_url ''https://x.test/a''"
proof -
  have ex: "excluded_url ''chrome://settings/''"
    by (simp add: excluded_url_def)
  from fetch_scenario_A ex
    filtered_urls_excluded [of "''chrome://settings/''" 9223 0 1 "Inr ''Settings''" "[]"
      scenario_A "[\<lparr>tab_port = 9223, tab_window = 1, tab_tab = 1,
                    tab_url = ''https://x.test/a'', tab_title = ''Docs''\<rparr>]"]
  show ?thesis
    by simp
qed

text \<open>
  Claim C3. The scanner is never to raise to its caller. The code does not keep this: its
  catch-all handler (lines 112 to 114, \<^verbatim>\<open>return []\<close>) covers the loop only, while
  \<^verbatim>\<open>async_playwright().start()\<close> (line 56) stands before the \<^verbatim>\<open>try\<close> and
  \<^verbatim>\<open>playwright.stop()\<close> runs in the \<^verbatim>\<open>finally\<close> clause. With every endpoint unreachable,
  a driver that cannot be started, or one whose shutdown raises, gives the caller the
  exception and not the empty list.
\<close>

theorem scanner_raises_when_driver_fails:
  "fetch_all_chrome_urls driver_missing = Inl (PyException ''driver not found'')
   \<and> fetch_all_chrome_urls driver_stop_fails = Inl (PyException ''driver already gone'')"
  by (simp add: fetch_all_chrome_urls_def driver_missing_def driver_stop_fails_def)

text \<open>
  Claim C4. In every scan, each candidate port is probed once, in order, and a probe that
  succeeds is followed by the \<^verbatim>\<open>close\<close> of that connection before the next port is
  probed. This holds whatever the pages of the browser do, a read that raises included, and
  also for the last port.
\<close>

theorem close_after_connect:
  "calls (scan w) = concat (map (port_calls w) [9222, 9223, 9224, 9225, 9226])
   \<and> port_calls w port =
       (case connect_over_cdp w port of
          Inl err \<Rightarrow> [Connect port]
        | Inr b \<Rightarrow> [Connect port, Close port])"
proof
  show "calls (scan w) = concat (map (port_calls w) [9222, 9223, 9224, 9225, 9226])"
    unfolding scan_def ports_loop_calls by (simp add: ports_to_check_def)
next
  show "port_calls w port =
       (case connect_over_cdp w port of
          Inl err \<Rightarrow> [Connect port]
        | Inr b \<Rightarrow> [Connect port, Close port])"
    by (simp add: port_calls_def)
qed

theorem close_after_connect_witness:
  "calls (scan two_browsers) =
     [Connect 9222, Close 9222, Connect 9223, Connect 9224, Close 9224, Connect 9225,
      Connect 9226]"
  using close_after_connect [of two_browsers, THEN conjunct1]
  by (simp add: port_calls_def two_browsers_def)

text \<open>
  Claim C5. With an empty inventory \<^verbatim>\<open>analyze_urls\<close> returns \<^verbatim>\<open>None\<close> at once: no call to
  the agent, none to Galileo, and a result that depends neither on the instruction nor on
  the surroundings.
\<close>

theorem empty_inventory_rejected:
  "analyze_urls env [] custom_task = \<lparr>result = Inr None, effects = []\<rparr>"
  by (simp add: analyze_urls_def)

text \<open>
  Claim C6. When the agent completes on a non-empty inventory, the returned text is
  \<open>Analysis failed\<close> if the agent's output is \<^verbatim>\<open>None\<close> or empty, and otherwise the output
  with every backslash-n pair turned into a line break; the text \<open>line1\<close>, backslash, \<open>n\<close>,
  \<open>line2\<close> becomes the two lines \<open>line1\<close> and \<open>line2\<close>.
\<close>

theorem output_normalization:
  "(tabs \<noteq> [] \<longrightarrow> agent_run env (compose_task tabs custom_task) = Inr raw \<longrightarrow>
      result (analyze_urls env tabs custom_task) =
        Inr (Some (case raw of
                     None \<Rightarrow> ''Analysis failed''
                   | Some a \<Rightarrow> if a = [] then ''Analysis failed'' else unescape_newlines a)))
   \<and> unescape_newlines (''line1'' @ [CHR 0x5C, CHR ''n''] @ ''line2'') = ''line1\<newline>line2''"
  by (simp add: result_analyze_urls clean_analysis_unescape)

theorem output_normalization_witness:
  "scenario_B \<noteq> []
   \<and> agent_run agent_escapes (compose_task scenario_B ''List topics'') =
       Inr (Some (''line1'' @ [CHR 0x5C, CHR ''n''] @ ''line2''))
   \<and> result (analyze_urls agent_escapes scenario_B ''List topics'') =
       Inr (Some ''line1\<newline>line2'')"
  using output_normalization [of scenario_B agent_escapes "''List topics''"
      "Some (''line1'' @ [CHR 0x5C, CHR ''n''] @ ''line2'')"]
  by (simp add: scenario_B_def agent_escapes_def)

text \<open>
  Claim C7, as the code has it. The count of tabs does not come after the numbered lines:
  in the prompt for the three tabs of scenario B and the instruction \<open>List topics\<close>, the
  numbered lines, the count \<open>3\<close> and the instruction do not occur in this order.
\<close>

theorem prompt_layout_counterexample:
  "occur_in_order [urls_text scenario_B, str (length scenario_B), ''List topics'']
     (compose_task scenario_B ''List topics'') = False"
  by (simp add: compose_task_def urls_text_def scenario_B_def str.simps enumerate_eq_zip
      startswith_def)

text \<open>
  Claim C7, amended. The prompt depends on the inventory and the instruction only. It
  states the count of tabs first, then renders each tab as a 1-based numbered entry
  \<open>title - url\<close>, the entries separated by line breaks, then gives the instruction
  as it is. For three tabs it reads: the count \<open>3\<close>, the entries numbered 1, 2 and 3, the
  instruction.
\<close>

theorem prompt_layout:
  "compose_task tabs custom_task =
     ''\<newline>    I have '' @ str (length tabs) @ '' browser tabs saved. Here'' @ [CHR 0x27]
     @ ''s the list:\<newline>    \<newline>    ''
     @ join ''\<newline>'' (map (\<lambda>i. numbered_line (i + 1) (tabs ! i)) [0..<length tabs])
     @ ''\<newline>    \<newline>    '' @ custom_task @ ''\<newline>    ''
   \<and> occur_in_order [str (length tabs), urls_text tabs, custom_task]
       (compose_task tabs custom_task)
   \<and> compose_task [a, b, c] custom_task =
       ''\<newline>    I have 3 browser tabs saved. Here'' @ [CHR 0x27]
       @ ''s the list:\<newline>    \<newline>    ''
       @ ''1. '' @ tab_title a @ '' - '' @ tab_url a @ ''\<newline>''
       @ ''2. '' @ tab_title b @ '' - '' @ tab_url b @ ''\<newline>''
       @ ''3. '' @ tab_title c @ '' - '' @ tab_url c
       @ ''\<newline>    \<newline>    '' @ custom_task @ ''\<newline>    ''"
proof (intro conjI)
  show "compose_task tabs custom_task =
     ''\<newline>    I have '' @ str (length tabs) @ '' browser tabs saved. Here'' @ [CHR 0x27]
     @ ''s the list:\<newline>    \<newline>    ''
     @ join ''\<newline>'' (map (\<lambda>i. numbered_line (i + 1) (tabs ! i)) [0..<length tabs])
     @ ''\<newline>    \<newline>    '' @ custom_task @ ''\<newline>    ''"
    by (simp add: compose_task_def urls_text_numbered)
next
  have "follow_each_other [str (length tabs), urls_text tabs, custom_task]
          (compose_task tabs custom_task)"
    unfolding compose_task_def follow_each_other.simps
    by (metis append.assoc)
  then show "occur_in_order [str (length tabs), urls_text tabs, custom_task]
          (compose_task tabs custom_task)"
    by (simp only: occur_in_order_iff)
next
  show "compose_task [a, b, c] custom_task =
       ''\<newline>    I have 3 browser tabs saved. Here'' @ [CHR 0x27]
       @ ''s the list:\<newline>    \<newline>    ''
       @ ''1. '' @ tab_title a @ '' - '' @ tab_url a @ ''\<newline>''
       @ ''2. '' @ tab_title b @ '' - '' @ tab_url b @ ''\<newline>''
       @ ''3. '' @ tab_title c @ '' - '' @ tab_url c
       @ ''\<newline>    \<newline>    '' @ custom_task @ ''\<newline>    ''"
    by (simp add: compose_task_def urls_text_def enumerate_eq_zip str.simps upt_rec)
qed

text \<open>
  Claim C8. Whatever the Galileo calls do, each one raising or not, \<^verbatim>\<open>analyze_urls\<close> gives
  its caller what it gives with Galileo absent; an exception reaches the caller only if the
  agent raised it, and the run with Galileo absent makes no call but the agent's.
\<close>

theorem telemetry_never_changes_result:
  "result (analyze_urls env tabs custom_task) =
     result (analyze_urls (env\<lparr>GALILEO_AVAILABLE := False\<rparr>) tabs custom_task)
   \<and> result (analyze_urls env tabs custom_task) =
     (if tabs = [] then Inr None
      else case agent_run env (compose_task tabs custom_task) of
             Inl e \<Rightarrow> Inl e
           | Inr raw \<Rightarrow> Inr (Some (clean_analysis raw)))
   \<and> effects (analyze_urls (env\<lparr>GALILEO_AVAILABLE := False\<rparr>) tabs custom_task) =
     (if tabs = [] then [] else [AgentRun (compose_task tabs custom_task)])"
proof (intro conjI)
  show "result (analyze_urls env tabs custom_task) =
     result (analyze_urls (env\<lparr>GALILEO_AVAILABLE := False\<rparr>) tabs custom_task)"
    by (simp add: result_analyze_urls)
next
  show "result (analyze_urls env tabs custom_task) =
     (if tabs = [] then Inr None
      else case agent_run env (compose_task tabs custom_task) of
             Inl e \<Rightarrow> Inl e
           | Inr raw \<Rightarrow> Inr (Some (clean_analysis raw)))"
    by (rule result_analyze_urls)
next
  show "effects (analyze_urls (env\<lparr>GALILEO_AVAILABLE := False\<rparr>) tabs custom_task) =
     (if tabs = [] then [] else [AgentRun (compose_task tabs custom_task)])"
    by (simp add: analyze_urls_def start_galileo_def open_trace_def log_to_galileo_def Let_def
        split: sum.splits)
qed

theorem telemetry_never_changes_result_witness:
  "result (analyze_urls trace_fails scenario_B ''List topics'') = Inr (Some ''line1\<newline>line2'')
   \<and> result (analyze_urls (trace_fails\<lparr>GALILEO_AVAILABLE := False\<rparr>) scenario_B ''List topics'') =
       Inr (Some ''line1\<newline>line2'')
   \<and> effects (analyze_urls trace_fails scenario_B ''List topics'') =
       [GalileoInit ''chrome-tab-analyzer'' ''nightly'', GetLoggerInstance, StartSession,
        StartTrace (compose_task scenario_B ''List topics''),
        AgentRun (compose_task scenario_B ''List topics'')]
   \<and> effects (analyze_urls (trace_fails\<lparr>GALILEO_AVAILABLE := False\<rparr>) scenario_B ''List topics'') =
       [AgentRun (compose_task scenario_B ''List topics'')]"
proof -
  have ne: "scenario_B \<noteq> []"
    by (simp add: scenario_B_def)
  have fx: "effects (analyze_urls trace_fails scenario_B ''List topics'') =
       [GalileoInit ''chrome-tab-analyzer'' ''nightly'', GetLoggerInstance, StartSession,
        StartTrace (compose_task scenario_B ''List topics''),
        AgentRun (compose_task scenario_B ''List topics'')]"
    using ne
    by (simp add: analyze_urls_def start_galileo_def open_trace_def log_to_galileo_def
        getenv_def trace_fails_def Let_def)
  have cl: "clean_analysis (Some (''line1'' @ [CHR 0x5C, CHR ''n''] @ ''line2'')) = ''line1\<newline>line2''"
    by (simp add: clean_analysis_unescape)
  have ag: "agent_run trace_fails (compose_task scenario_B ''List topics'') =
      Inr (Some (''line1'' @ [CHR 0x5C, CHR ''n''] @ ''line2''))"
    by (simp add: trace_fails_def)
  note same = telemetry_never_changes_result [of trace_fails scenario_B "''List topics''"]
  have r1: "result (analyze_urls trace_fails scenario_B ''List topics'') =
      Inr (Some ''line1\<newline>line2'')"
    using same [THEN conjunct2, THEN conjunct1] ne ag cl by simp
  have eq: "result (analyze_urls trace_fails scenario_B ''List topics'') =
      result (analyze_urls (trace_fails\<lparr>GALILEO_AVAILABLE := False\<rparr>) scenario_B ''List topics'')"
    using same by (rule conjunct1)
  have r2: "result (analyze_urls (trace_fails\<lparr>GALILEO_AVAILABLE := False\<rparr>) scenario_B
      ''List topics'') = Inr (Some ''line1\<newline>line2'')"
    unfolding eq [symmetric] by (rule r1)
  have fx0: "effects (analyze_urls (trace_fails\<lparr>GALILEO_AVAILABLE := False\<rparr>) scenario_B
      ''List topics'') = [AgentRun (compose_task scenario_B ''List topics'')]"
    using same [THEN conjunct2, THEN conjunct2] ne by simp
  from r1 r2 fx fx0 show ?thesis
    by (intro conjI)
qed

text \<open>
  Claim C9. On a non-empty inventory, an exception raised by the agent leaves
  \<^verbatim>\<open>analyze_urls\<close> as it is: the caller gets it, no text is returned, and the call of the
  agent is the last outside call of the run, so no span is added and the trace is neither
  concluded nor flushed. An agent that returns \<^verbatim>\<open>None\<close> gives instead a normal return of the
  text \<open>Analysis failed\<close>.
\<close>

theorem agent_failure_propagates:
  "tabs \<noteq> [] \<Longrightarrow>
     (agent_run env (compose_task tabs custom_task) = Inl e \<longrightarrow>
        result (analyze_urls env tabs custom_task) = Inl e
        \<and> filter closes_trace (effects (analyze_urls env tabs custom_task)) = []
        \<and> last (effects (analyze_urls env tabs custom_task)) =
            AgentRun (compose_task tabs custom_task))
     \<and> (agent_run env (compose_task tabs custom_task) = Inr None \<longrightarrow>
        result (analyze_urls env tabs custom_task) = Inr (Some ''Analysis failed''))"
  by (simp add: result_analyze_urls effects_when_agent_raises start_galileo_no_close
      open_trace_no_close clean_analysis_def)

theorem agent_failure_propagates_witness:
  "scenario_B \<noteq> []
   \<and> agent_run agent_fails (compose_task scenario_B ''List topics'') =
       Inl (PyException ''timeout'')
   \<and> result (analyze_urls agent_fails scenario_B ''List topics'') = Inl (PyException ''timeout'')
   \<and> filter closes_trace (effects (analyze_urls agent_fails scenario_B ''List topics'')) = []
   \<and> agent_run agent_silent (compose_task scenario_B ''List topics'') = Inr None
   \<and> result (analyze_urls agent_silent scenario_B ''List topics'') =
       Inr (Some ''Analysis failed'')"
  using agent_failure_propagates [of scenario_B agent_fails "''List topics''"
      "PyException ''timeout''"]
    agent_failure_propagates [of scenario_B agent_silent "''List topics''"
      "PyException ''timeout''"]
  by (simp add: scenario_B_def agent_fails_def agent_silent_def)

text \<open>
  Claim C10. \<^verbatim>\<open>analyze_urls\<close> returns \<^verbatim>\<open>None\<close> exactly when the inventory is empty. On a
  non-empty inventory, when the agent completes, it returns a non-empty text, which the
  caller's test takes as true; this text is \<open>Analysis failed\<close> when the agent's output is
  \<^verbatim>\<open>None\<close> or empty.
\<close>

theorem completed_analysis_is_truthy:
  "(result (analyze_urls env tabs custom_task) = Inr None \<longleftrightarrow> tabs = [])
   \<and> (tabs \<noteq> [] \<longrightarrow> agent_run env (compose_task tabs custom_task) = Inr raw \<longrightarrow>
        (\<exists>s. result (analyze_urls env tabs custom_task) = Inr (Some s) \<and> s \<noteq> []
             \<and> truthy (Some s)
             \<and> (raw = None \<or> raw = Some [] \<longrightarrow> s = ''Analysis failed'')))"
proof (intro conjI impI)
  show "(result (analyze_urls env tabs custom_task) = Inr None) = (tabs = [])"
    by (simp add: result_analyze_urls split: sum.splits)
next
  assume "tabs \<noteq> []" and "agent_run env (compose_task tabs custom_task) = Inr raw"
  then have "result (analyze_urls env tabs custom_task) = Inr (Some (clean_analysis raw))"
    by (simp add: result_analyze_urls)
  moreover have "clean_analysis raw \<noteq> []"
    by (rule clean_analysis_nonempty)
  moreover have "truthy (Some (clean_analysis raw))"
    by (simp add: truthy_def clean_analysis_nonempty)
  moreover have "raw = None \<or> raw = Some [] \<longrightarrow> clean_analysis raw = ''Analysis failed''"
    by (auto simp: clean_analysis_def)
  ultimately show "\<exists>s. result (analyze_urls env tabs custom_task) = Inr (Some s) \<and> s \<noteq> []
             \<and> truthy (Some s)
             \<and> (raw = None \<or> raw = Some [] \<longrightarrow> s = ''Analysis failed'')"
    by blast
qed

theorem completed_analysis_is_truthy_witness:
  "scenario_B \<noteq> []
   \<and> agent_run agent_silent (compose_task scenario_B ''List topics'') = Inr None
   \<and> result (analyze_urls agent_silent scenario_B ''List topics'') =
       Inr (Some ''Analysis failed'')
   \<and> truthy (Some ''Analysis failed'')"
  using completed_analysis_is_truthy [of agent_silent scenario_B "''List topics''" None]
  by (auto simp: scenario_B_def agent_silent_def truthy_def)

end
